theory Spec2Isabelle
  imports Main "HOL-Library.Word" "HOL-Library.AList" "HOL-Library.Sublist"
begin

section \<open>The resource manager facade of core/node/libp2p/rcmgr.go\<close>

text \<open>
  The file under study is \<^verbatim>\<open>core/node/libp2p/rcmgr.go\<close>: the constructor
  \<^verbatim>\<open>ResourceManager\<close> and the three administrative entry points \<^verbatim>\<open>NetStat\<close>,
  \<^verbatim>\<open>NetLimit\<close> and \<^verbatim>\<open>NetSetLimit\<close>. They are clients of two libraries
  (go-libp2p-core/network and go-libp2p-resource-manager) whose types are declared
  first; the Go functions follow, branch by branch.

  Conventions. Go's \<^verbatim>\<open>int\<close> and \<^verbatim>\<open>int64\<close> values are only copied here, never
  computed with, and are modelled as \<^typ>\<open>int\<close>. A \<^verbatim>\<open>float64\<close> is likewise only
  copied and is modelled by its 64-bit pattern, whose zero value is the word 0.
  A Go string is a byte sequence: \<^typ>\<open>string\<close>. A Go map is an association
  list with distinct keys, in the order a \<^verbatim>\<open>range\<close> loop visits it; a map that
  may be \<^verbatim>\<open>nil\<close> is an \<open>option\<close> of such a list, and a pointer that may be
  \<^verbatim>\<open>nil\<close> is an \<open>option\<close>. A Go function that returns \<^verbatim>\<open>(result, err)\<close> and
  mutates the manager returns the triple of result, error and manager.
\<close>

subsection \<open>Library types: usage snapshots and limits\<close>

type_synonym float64 = "64 word"
type_synonym peer_ID = string

text \<open>\<^verbatim>\<open>network.ScopeStat\<close>; its field \<^verbatim>\<open>Memory\<close> is named \<open>StatMemory\<close> here.\<close>

record ScopeStat =
  NumStreamsInbound :: int
  NumStreamsOutbound :: int
  NumConnsInbound :: int
  NumConnsOutbound :: int
  NumFD :: int
  StatMemory :: int

definition ScopeStat_zero :: ScopeStat where
  "ScopeStat_zero = \<lparr>NumStreamsInbound = 0, NumStreamsOutbound = 0, NumConnsInbound = 0,
     NumConnsOutbound = 0, NumFD = 0, StatMemory = 0\<rparr>"

text \<open>\<^verbatim>\<open>rcmgr.BaseLimit\<close> and \<^verbatim>\<open>rcmgr.MemoryLimit\<close>, fields prefixed to keep them apart
  from the equally named fields of the configuration record below.\<close>

record BaseLimit =
  bl_Streams :: int
  bl_StreamsInbound :: int
  bl_StreamsOutbound :: int
  bl_Conns :: int
  bl_ConnsInbound :: int
  bl_ConnsOutbound :: int
  bl_FD :: int

record MemoryLimit =
  ml_MemoryFraction :: float64
  ml_MinMemory :: int
  ml_MaxMemory :: int

text \<open>
  \<^verbatim>\<open>rcmgr.Limit\<close> is an interface. The library implements it by \<^verbatim>\<open>*StaticLimit\<close>
  and \<^verbatim>\<open>*DynamicLimit\<close>; any other implementation is \<open>OtherLimit\<close>, carrying the
  name of its dynamic type (what \<^verbatim>\<open>%T\<close> prints).
\<close>

datatype Limit =
    StaticLimit int BaseLimit
  | DynamicLimit MemoryLimit BaseLimit
  | OtherLimit string

subsection \<open>The configuration types of package config\<close>

text \<open>
  Modelled from the spec: \<^verbatim>\<open>config.ResourceMgrScopeConfig\<close> is declared in package
  config outside the files at hand. It is the specification's limit value with an
  explicit \<open>dynamic\<close> discriminator (section 6), as one flat struct for both variants;
  its fields are the twelve that \<^verbatim>\<open>NetLimit\<close> writes and \<^verbatim>\<open>NetSetLimit\<close> reads.
\<close>

record ResourceMgrScopeConfig =
  Dynamic :: bool
  Memory :: int
  MemoryFraction :: float64
  MinMemory :: int
  MaxMemory :: int
  Streams :: int
  StreamsInbound :: int
  StreamsOutbound :: int
  Conns :: int
  ConnsInbound :: int
  ConnsOutbound :: int
  FD :: int

definition ResourceMgrScopeConfig_zero :: ResourceMgrScopeConfig where
  "ResourceMgrScopeConfig_zero = \<lparr>Dynamic = False, Memory = 0, MemoryFraction = 0,
     MinMemory = 0, MaxMemory = 0, Streams = 0, StreamsInbound = 0, StreamsOutbound = 0,
     Conns = 0, ConnsInbound = 0, ConnsOutbound = 0, FD = 0\<rparr>"

text \<open>
  Modelled from the spec: the scope names and prefixes of package config, after the
  address forms of section 3. The prefixes have the lengths 4, 6 and 5 that the
  entry points cut off.
\<close>

definition ResourceMgrSystemScope :: string where
  "ResourceMgrSystemScope = ''system''"

definition ResourceMgrTransientScope :: string where
  "ResourceMgrTransientScope = ''transient''"

definition ResourceMgrServiceScopePrefix :: string where
  "ResourceMgrServiceScopePrefix = ''svc:''"

definition ResourceMgrProtocolScopePrefix :: string where
  "ResourceMgrProtocolScopePrefix = ''proto:''"

definition ResourceMgrPeerScopePrefix :: string where
  "ResourceMgrPeerScopePrefix = ''peer:''"

text \<open>
  Modelled from the spec: \<^verbatim>\<open>config.Flag\<close> and its method \<^verbatim>\<open>WithDefault\<close> are declared in
  package config outside the files at hand. The flag is an optional boolean: set to
  true, set to false, or unset, in which case the default given by the caller applies.
\<close>

datatype Flag = FlagFalse | FlagDefault | FlagTrue

fun WithDefault :: "Flag \<Rightarrow> bool \<Rightarrow> bool" where
  "WithDefault FlagFalse defaultValue = False"
| "WithDefault FlagDefault defaultValue = defaultValue"
| "WithDefault FlagTrue defaultValue = True"

text \<open>\<^verbatim>\<open>config.ResourceMgr\<close>, with the map \<open>Limits\<close> in the order the constructor's
  loop ranges over it.\<close>

record ResourceMgr =
  Enabled :: Flag
  Limits :: "(string \<times> ResourceMgrScopeConfig) list"

subsection \<open>Errors\<close>

text \<open>
  The errors the file can return: the package variable \<^verbatim>\<open>NoResourceMgrError\<close>, the three
  \<^verbatim>\<open>fmt.Errorf\<close> messages of the entry points with their arguments, and for the
  constructor the wrapped error of a failed limit and the failure to build a manager.
\<close>

datatype error =
    NoResourceMgrError
  | InvalidPeerID string string
  | InvalidScope string
  | UnknownLimitType string
  | ApplyLimitsError string error
  | CreateError string

subsection \<open>Library objects: scopes and managers\<close>

text \<open>
  Modelled from the spec: the scope and manager objects belong to the libraries
  go-libp2p-core/network and go-libp2p-resource-manager, which the file imports and
  which are not among the files at hand. The model follows the specification's Scope
  (usage counters and a limit, section 3), its view operations and \<open>setLimit\<close>
  (section 4.3: resolve the scope, creating it on first reference, run the callback on
  it and return the callback's result; a limit is replaced wholesale) and its null
  object (section 4.2), together with what \<^verbatim>\<open>rcmgr.go\<close> itself relies on: the closures
  \<^verbatim>\<open>getLimit\<close> and \<^verbatim>\<open>setLimit\<close> test whether the scope they are handed implements
  \<^verbatim>\<open>rcmgr.ResourceScopeLimiter\<close>, and the comment on the failing case names the null
  manager. So the null manager runs a view callback on a scope that is no limiter,
  and that scope reports a zero \<^verbatim>\<open>ScopeStat\<close>; a scope of the library's manager
  holds its usage and its limit and is a limiter (\<open>Limit\<close> and \<open>SetLimit\<close>).
\<close>

record scope_state =
  scope_usage :: ScopeStat
  scope_limit :: Limit

datatype ResourceScope = NullScope | LimiterScope scope_state

fun Stat :: "ResourceScope \<Rightarrow> ScopeStat" where
  "Stat NullScope = ScopeStat_zero"
| "Stat (LimiterScope s) = scope_usage s"

text \<open>The type assertion \<^verbatim>\<open>s.(rcmgr.ResourceScopeLimiter)\<close>: \<open>None\<close> when it fails.\<close>

fun ResourceScopeLimiter :: "ResourceScope \<Rightarrow> scope_state option" where
  "ResourceScopeLimiter NullScope = None"
| "ResourceScopeLimiter (LimiterScope s) = Some s"

definition SetLimit :: "scope_state \<Rightarrow> Limit \<Rightarrow> ResourceScope" where
  "SetLimit s l = LimiterScope (s\<lparr>scope_limit := l\<rparr>)"

text \<open>
  Modelled from the spec: the state of the library's manager, after the
  specification's registry (sections 2 and 3). It holds the two fixed scopes, the
  service, protocol and peer scopes that exist so far, and the limiter that gives a
  scope created on first reference its initial limit. Eviction of idle scopes runs in
  the background in the library and is not part of this sequential model.
\<close>

datatype scope_key =
    SystemKey
  | TransientKey
  | ServiceKey string
  | ProtocolKey string
  | PeerKey peer_ID

record rcmgr_state =
  system :: scope_state
  transient :: scope_state
  svc_scopes :: "(string \<times> scope_state) list"
  proto_scopes :: "(string \<times> scope_state) list"
  peer_scopes :: "(peer_ID \<times> scope_state) list"
  default_limit :: "scope_key \<Rightarrow> Limit"

datatype ResourceManager = NullResourceManager | RcMgr rcmgr_state

definition new_scope :: "rcmgr_state \<Rightarrow> scope_key \<Rightarrow> scope_state" where
  "new_scope st k = \<lparr>scope_usage = ScopeStat_zero, scope_limit = default_limit st k\<rparr>"

fun get_scope :: "rcmgr_state \<Rightarrow> scope_key \<Rightarrow> scope_state" where
  "get_scope st SystemKey = system st"
| "get_scope st TransientKey = transient st"
| "get_scope st (ServiceKey n) =
     (case map_of (svc_scopes st) n of Some s \<Rightarrow> s | None \<Rightarrow> new_scope st (ServiceKey n))"
| "get_scope st (ProtocolKey n) =
     (case map_of (proto_scopes st) n of Some s \<Rightarrow> s | None \<Rightarrow> new_scope st (ProtocolKey n))"
| "get_scope st (PeerKey p) =
     (case map_of (peer_scopes st) p of Some s \<Rightarrow> s | None \<Rightarrow> new_scope st (PeerKey p))"

fun put_scope :: "rcmgr_state \<Rightarrow> scope_key \<Rightarrow> scope_state \<Rightarrow> rcmgr_state" where
  "put_scope st SystemKey s = st\<lparr>system := s\<rparr>"
| "put_scope st TransientKey s = st\<lparr>transient := s\<rparr>"
| "put_scope st (ServiceKey n) s = st\<lparr>svc_scopes := AList.update n s (svc_scopes st)\<rparr>"
| "put_scope st (ProtocolKey n) s = st\<lparr>proto_scopes := AList.update n s (proto_scopes st)\<rparr>"
| "put_scope st (PeerKey p) s = st\<lparr>peer_scopes := AList.update p s (peer_scopes st)\<rparr>"

text \<open>
  Modelled from the spec: the view operations of \<^verbatim>\<open>network.ResourceManager\<close>. A view
  resolves the scope, creating it if need be, and runs the callback on it. The
  callback is a Go closure: besides the scope it reads and writes the variables it
  captured, of type \<open>'r\<close>, and it returns an error or \<^verbatim>\<open>nil\<close>. The view returns what
  the callback returned. The null manager runs the callback on its null scope and
  keeps no state.
\<close>

type_synonym 'r callback = "ResourceScope \<Rightarrow> 'r \<Rightarrow> error option \<times> ResourceScope \<times> 'r"

fun resolve :: "ResourceManager \<Rightarrow> scope_key \<Rightarrow> ResourceScope" where
  "resolve NullResourceManager k = NullScope"
| "resolve (RcMgr st) k = LimiterScope (get_scope st k)"

fun store :: "ResourceManager \<Rightarrow> scope_key \<Rightarrow> ResourceScope \<Rightarrow> ResourceManager" where
  "store NullResourceManager k s = NullResourceManager"
| "store (RcMgr st) k (LimiterScope x) = RcMgr (put_scope st k x)"
| "store (RcMgr st) k NullScope = RcMgr (put_scope st k (get_scope st k))"

definition View :: "ResourceManager \<Rightarrow> scope_key \<Rightarrow> 'r callback \<Rightarrow> 'r
    \<Rightarrow> error option \<times> ResourceManager \<times> 'r" where
  "View mgr k f r = (case f (resolve mgr k) r of (err, s', r') \<Rightarrow> (err, store mgr k s', r'))"

definition ViewSystem :: "ResourceManager \<Rightarrow> 'r callback \<Rightarrow> 'r
    \<Rightarrow> error option \<times> ResourceManager \<times> 'r" where
  "ViewSystem mgr f r = View mgr SystemKey f r"

definition ViewTransient :: "ResourceManager \<Rightarrow> 'r callback \<Rightarrow> 'r
    \<Rightarrow> error option \<times> ResourceManager \<times> 'r" where
  "ViewTransient mgr f r = View mgr TransientKey f r"

definition ViewService :: "ResourceManager \<Rightarrow> string \<Rightarrow> 'r callback \<Rightarrow> 'r
    \<Rightarrow> error option \<times> ResourceManager \<times> 'r" where
  "ViewService mgr svc f r = View mgr (ServiceKey svc) f r"

definition ViewProtocol :: "ResourceManager \<Rightarrow> string \<Rightarrow> 'r callback \<Rightarrow> 'r
    \<Rightarrow> error option \<times> ResourceManager \<times> 'r" where
  "ViewProtocol mgr proto f r = View mgr (ProtocolKey proto) f r"

definition ViewPeer :: "ResourceManager \<Rightarrow> peer_ID \<Rightarrow> 'r callback \<Rightarrow> 'r
    \<Rightarrow> error option \<times> ResourceManager \<times> 'r" where
  "ViewPeer mgr pid f r = View mgr (PeerKey pid) f r"

text \<open>
  Modelled from the spec: \<^verbatim>\<open>rcmgr.ResourceManagerStat\<close>, the aggregate of the
  specification's \<open>statAll\<close> (section 4.3): the snapshots of the two fixed scopes and
  of every service, protocol and peer scope that exists.
\<close>

record ResourceManagerStat =
  rs_System :: ScopeStat
  rs_Transient :: ScopeStat
  rs_Services :: "(string \<times> ScopeStat) list"
  rs_Protocols :: "(string \<times> ScopeStat) list"
  rs_Peers :: "(peer_ID \<times> ScopeStat) list"

definition stats_of :: "('k \<times> scope_state) list \<Rightarrow> ('k \<times> ScopeStat) list" where
  "stats_of al = map (\<lambda>(k, s). (k, scope_usage s)) al"

text \<open>
  The type assertion \<^verbatim>\<open>mgr.(rcmgr.ResourceManagerState)\<close> followed by \<^verbatim>\<open>rapi.Stat()\<close>:
  \<open>None\<close> when the assertion fails, which is the case of the null manager.
\<close>

fun ResourceManagerState :: "ResourceManager \<Rightarrow> ResourceManagerStat option" where
  "ResourceManagerState NullResourceManager = None"
| "ResourceManagerState (RcMgr st) =
     Some \<lparr>rs_System = scope_usage (system st), rs_Transient = scope_usage (transient st),
           rs_Services = stats_of (svc_scopes st), rs_Protocols = stats_of (proto_scopes st),
           rs_Peers = stats_of (peer_scopes st)\<rparr>"

subsection \<open>Library functions taken as parameters\<close>

text \<open>
  \<^verbatim>\<open>peer.Decode\<close> parses the text of a peer identifier and \<^verbatim>\<open>peer.ID.Pretty\<close> prints
  one. Both belong to go-libp2p-core; the entry points below take them as the
  parameters \<open>Decode\<close> (\<open>Inl\<close> carries the message of the parse error) and \<open>Pretty\<close>.
\<close>

type_synonym decoder = "string \<Rightarrow> string + peer_ID"

subsection \<open>NetStat\<close>

record NetStatOut =
  System :: "ScopeStat option"
  Transient :: "ScopeStat option"
  Services :: "(string \<times> ScopeStat) list option"
  Protocols :: "(string \<times> ScopeStat) list option"
  Peers :: "(string \<times> ScopeStat) list option"

definition NetStatOut_zero :: NetStatOut where
  "NetStatOut_zero = \<lparr>System = None, Transient = None, Services = None, Protocols = None,
     Peers = None\<rparr>"

text \<open>
  The two \<^verbatim>\<open>range\<close> loops of the branch \<^verbatim>\<open>"all"\<close>: each entry is stored in the
  fresh map under its converted key (\<^verbatim>\<open>string(proto)\<close> is the identity on the bytes).
\<close>

definition copy_protocols :: "(string \<times> ScopeStat) list \<Rightarrow> (string \<times> ScopeStat) list" where
  "copy_protocols entries = fold (\<lambda>(proto, stat) m. AList.update proto stat m) entries []"

definition copy_peers :: "(peer_ID \<Rightarrow> string) \<Rightarrow> (peer_ID \<times> ScopeStat) list
    \<Rightarrow> (string \<times> ScopeStat) list" where
  "copy_peers Pretty entries = fold (\<lambda>(p, stat) m. AList.update (Pretty p) stat m) entries []"

definition NetStat :: "decoder \<Rightarrow> (peer_ID \<Rightarrow> string) \<Rightarrow> ResourceManager \<Rightarrow> string
    \<Rightarrow> NetStatOut \<times> error option \<times> ResourceManager" where
  "NetStat Decode Pretty mgr scope =
    (let result = NetStatOut_zero in
     if scope = ''all'' then
       (case ResourceManagerState mgr of
          None \<Rightarrow> (result, Some NoResourceMgrError, mgr)
        | Some stat \<Rightarrow>
            (let result = result\<lparr>System := Some (rs_System stat)\<rparr>;
                 result = result\<lparr>Transient := Some (rs_Transient stat)\<rparr>;
                 result = (if length (rs_Services stat) > 0
                           then result\<lparr>Services := Some (rs_Services stat)\<rparr> else result);
                 result = (if length (rs_Protocols stat) > 0
                           then result\<lparr>Protocols := Some (copy_protocols (rs_Protocols stat))\<rparr>
                           else result);
                 result = (if length (rs_Peers stat) > 0
                           then result\<lparr>Peers := Some (copy_peers Pretty (rs_Peers stat))\<rparr>
                           else result)
             in (result, None, mgr)))
     else if scope = ResourceMgrSystemScope then
       (case ViewSystem mgr (\<lambda>s result. (None, s, result\<lparr>System := Some (Stat s)\<rparr>)) result of
          (err, mgr', result) \<Rightarrow> (result, err, mgr'))
     else if scope = ResourceMgrTransientScope then
       (case ViewTransient mgr (\<lambda>s result. (None, s, result\<lparr>Transient := Some (Stat s)\<rparr>)) result of
          (err, mgr', result) \<Rightarrow> (result, err, mgr'))
     else if prefix ResourceMgrServiceScopePrefix scope then
       (let svc = drop 4 scope in
        case ViewService mgr svc
               (\<lambda>s result. (None, s, result\<lparr>Services := Some [(svc, Stat s)]\<rparr>)) result of
          (err, mgr', result) \<Rightarrow> (result, err, mgr'))
     else if prefix ResourceMgrProtocolScopePrefix scope then
       (let proto = drop 6 scope in
        case ViewProtocol mgr proto
               (\<lambda>s result. (None, s, result\<lparr>Protocols := Some [(proto, Stat s)]\<rparr>)) result of
          (err, mgr', result) \<Rightarrow> (result, err, mgr'))
     else if prefix ResourceMgrPeerScopePrefix scope then
       (let p = drop 5 scope in
        case Decode p of
          Inl err \<Rightarrow> (result, Some (InvalidPeerID p err), mgr)
        | Inr pid \<Rightarrow>
            (case ViewPeer mgr pid
                    (\<lambda>s result. (None, s, result\<lparr>Peers := Some [(p, Stat s)]\<rparr>)) result of
               (err, mgr', result) \<Rightarrow> (result, err, mgr')))
     else (result, Some (InvalidScope scope), mgr))"

subsection \<open>NetLimit\<close>

text \<open>The closure \<^verbatim>\<open>getLimit\<close>; the variable it captures is \<^verbatim>\<open>result\<close>.\<close>

definition getLimit :: "ResourceMgrScopeConfig callback" where
  "getLimit s result =
    (case ResourceScopeLimiter s of
       None \<Rightarrow> (Some NoResourceMgrError, s, result)
     | Some limiter \<Rightarrow>
         (case scope_limit limiter of
            StaticLimit memory bl \<Rightarrow>
              (None, s, result\<lparr>Dynamic := False, Memory := memory,
                 Streams := bl_Streams bl, StreamsInbound := bl_StreamsInbound bl,
                 StreamsOutbound := bl_StreamsOutbound bl, Conns := bl_Conns bl,
                 ConnsInbound := bl_ConnsInbound bl, ConnsOutbound := bl_ConnsOutbound bl,
                 FD := bl_FD bl\<rparr>)
          | DynamicLimit ml bl \<Rightarrow>
              (None, s, result\<lparr>Dynamic := True, MemoryFraction := ml_MemoryFraction ml,
                 MinMemory := ml_MinMemory ml, MaxMemory := ml_MaxMemory ml,
                 Streams := bl_Streams bl, StreamsInbound := bl_StreamsInbound bl,
                 StreamsOutbound := bl_StreamsOutbound bl, Conns := bl_Conns bl,
                 ConnsInbound := bl_ConnsInbound bl, ConnsOutbound := bl_ConnsOutbound bl,
                 FD := bl_FD bl\<rparr>)
          | OtherLimit t \<Rightarrow> (Some (UnknownLimitType t), s, result)))"

definition NetLimit :: "decoder \<Rightarrow> ResourceManager \<Rightarrow> string
    \<Rightarrow> ResourceMgrScopeConfig \<times> error option \<times> ResourceManager" where
  "NetLimit Decode mgr scope =
    (let result = ResourceMgrScopeConfig_zero in
     if scope = ResourceMgrSystemScope then
       (case ViewSystem mgr (\<lambda>s. getLimit s) result of
          (err, mgr', result) \<Rightarrow> (result, err, mgr'))
     else if scope = ResourceMgrTransientScope then
       (case ViewTransient mgr (\<lambda>s. getLimit s) result of
          (err, mgr', result) \<Rightarrow> (result, err, mgr'))
     else if prefix ResourceMgrServiceScopePrefix scope then
       (let svc = drop 4 scope in
        case ViewService mgr svc (\<lambda>s. getLimit s) result of
          (err, mgr', result) \<Rightarrow> (result, err, mgr'))
     else if prefix ResourceMgrProtocolScopePrefix scope then
       (let proto = drop 6 scope in
        case ViewProtocol mgr proto (\<lambda>s. getLimit s) result of
          (err, mgr', result) \<Rightarrow> (result, err, mgr'))
     else if prefix ResourceMgrPeerScopePrefix scope then
       (let p = drop 5 scope in
        case Decode p of
          Inl err \<Rightarrow> (result, Some (InvalidPeerID p err), mgr)
        | Inr pid \<Rightarrow>
            (case ViewPeer mgr pid (\<lambda>s. getLimit s) result of
               (err, mgr', result) \<Rightarrow> (result, err, mgr')))
     else (result, Some (InvalidScope scope), mgr))"

subsection \<open>NetSetLimit\<close>

text \<open>The closure \<^verbatim>\<open>setLimit\<close>; it captures the parameter \<^verbatim>\<open>limit\<close>, which it only reads.\<close>

definition setLimit :: "ResourceMgrScopeConfig \<Rightarrow> unit callback" where
  "setLimit limit s u =
    (case ResourceScopeLimiter s of
       None \<Rightarrow> (Some NoResourceMgrError, s, u)
     | Some limiter \<Rightarrow>
         (let newLimit =
            (if Dynamic limit then
               DynamicLimit
                 \<lparr>ml_MemoryFraction = MemoryFraction limit, ml_MinMemory = MinMemory limit,
                  ml_MaxMemory = MaxMemory limit\<rparr>
                 \<lparr>bl_Streams = Streams limit, bl_StreamsInbound = StreamsInbound limit,
                  bl_StreamsOutbound = StreamsOutbound limit, bl_Conns = Conns limit,
                  bl_ConnsInbound = ConnsInbound limit, bl_ConnsOutbound = ConnsOutbound limit,
                  bl_FD = FD limit\<rparr>
             else
               StaticLimit (Memory limit)
                 \<lparr>bl_Streams = Streams limit, bl_StreamsInbound = StreamsInbound limit,
                  bl_StreamsOutbound = StreamsOutbound limit, bl_Conns = Conns limit,
                  bl_ConnsInbound = ConnsInbound limit, bl_ConnsOutbound = ConnsOutbound limit,
                  bl_FD = FD limit\<rparr>)
          in (None, SetLimit limiter newLimit, u)))"

definition NetSetLimit :: "decoder \<Rightarrow> ResourceManager \<Rightarrow> string \<Rightarrow> ResourceMgrScopeConfig
    \<Rightarrow> error option \<times> ResourceManager" where
  "NetSetLimit Decode mgr scope limit =
    (if scope = ResourceMgrSystemScope then
       (case ViewSystem mgr (\<lambda>s. setLimit limit s) () of (err, mgr', u) \<Rightarrow> (err, mgr'))
     else if scope = ResourceMgrTransientScope then
       (case ViewTransient mgr (\<lambda>s. setLimit limit s) () of (err, mgr', u) \<Rightarrow> (err, mgr'))
     else if prefix ResourceMgrServiceScopePrefix scope then
       (let svc = drop 4 scope in
        case ViewService mgr svc (\<lambda>s. setLimit limit s) () of (err, mgr', u) \<Rightarrow> (err, mgr'))
     else if prefix ResourceMgrProtocolScopePrefix scope then
       (let proto = drop 6 scope in
        case ViewProtocol mgr proto (\<lambda>s. setLimit limit s) () of (err, mgr', u) \<Rightarrow> (err, mgr'))
     else if prefix ResourceMgrPeerScopePrefix scope then
       (let p = drop 5 scope in
        case Decode p of
          Inl err \<Rightarrow> (Some (InvalidPeerID p err), mgr)
        | Inr pid \<Rightarrow>
            (case ViewPeer mgr pid (\<lambda>s. setLimit limit s) () of (err, mgr', u) \<Rightarrow> (err, mgr')))
     else (Some (InvalidScope scope), mgr))"

subsection \<open>The constructor\<close>

text \<open>\<^verbatim>\<open>os.Getenv\<close>: the value of the variable, or the empty string when it is unset.\<close>

definition Getenv :: "(string \<rightharpoonup> string) \<Rightarrow> string \<Rightarrow> string" where
  "Getenv env name = (case env name of None \<Rightarrow> [] | Some v \<Rightarrow> v)"

text \<open>Lines 36 to 45 of the constructor: the configuration, then the override.\<close>

definition rcmgr_enabled :: "ResourceMgr \<Rightarrow> (string \<rightharpoonup> string) \<Rightarrow> bool" where
  "rcmgr_enabled cfg env =
    (let enabled = WithDefault (Enabled cfg) False;
         v = Getenv env ''LIBP2P_RCMGR''
     in if v = ''0'' \<or> v = ''false'' then False
        else if v = ''1'' \<or> v = ''true'' then True
        else enabled)"

text \<open>The loop that applies \<^verbatim>\<open>cfg.Limits\<close>; it stops at the first error.\<close>

fun apply_limits :: "decoder \<Rightarrow> ResourceManager \<Rightarrow> (string \<times> ResourceMgrScopeConfig) list
    \<Rightarrow> error + ResourceManager" where
  "apply_limits Decode manager [] = Inr manager"
| "apply_limits Decode manager ((scope, userLimit) # rest) =
     (case NetSetLimit Decode manager scope userLimit of
        (Some err, manager') \<Rightarrow> Inl (ApplyLimitsError scope err)
      | (None, manager') \<Rightarrow> apply_limits Decode manager' rest)"

text \<open>
  The constructor. Everything the enabled branch does before the loop (the repository
  path, the limit file, the library's \<^verbatim>\<open>NewResourceManager\<close>) is the parameter
  \<open>create\<close>: the manager state it builds, or the message of the step that failed.
\<close>

definition ResourceManager :: "decoder \<Rightarrow> ResourceMgr \<Rightarrow> (string \<rightharpoonup> string)
    \<Rightarrow> string + rcmgr_state \<Rightarrow> error + ResourceManager" where
  "ResourceManager Decode cfg env create =
    (if rcmgr_enabled cfg env then
       (case create of
          Inl msg \<Rightarrow> Inl (CreateError msg)
        | Inr st \<Rightarrow> apply_limits Decode (RcMgr st) (Limits cfg))
     else Inr NullResourceManager)"

subsection \<open>Vocabulary of the properties\<close>

text \<open>
  The five single-scope address forms of the specification (section 3) and the scope
  each one names: \<^verbatim>\<open>system\<close>, \<^verbatim>\<open>transient\<close>, \<^verbatim>\<open>svc:<name>\<close>, \<^verbatim>\<open>proto:<id>\<close> and
  \<^verbatim>\<open>peer:<id>\<close> with an identifier that parses. An address is valid when
  \<open>scope_address\<close> gives a key. The literal \<^verbatim>\<open>all\<close> is no single-scope address.
  This function is used to state the properties only; the entry points above do their
  own matching, as the Go code does.
\<close>

definition scope_address :: "decoder \<Rightarrow> string \<Rightarrow> scope_key option" where
  "scope_address Decode a =
    (if a = ''system'' then Some SystemKey
     else if a = ''transient'' then Some TransientKey
     else if prefix ''svc:'' a then Some (ServiceKey (drop 4 a))
     else if prefix ''proto:'' a then Some (ProtocolKey (drop 6 a))
     else if prefix ''peer:'' a then
       (case Decode (drop 5 a) of Inr pid \<Rightarrow> Some (PeerKey pid) | Inl err \<Rightarrow> None)
     else None)"

text \<open>
  The part of a configuration that belongs to its variant: the flag, the seven base
  fields, and \<open>Memory\<close> when static or the three dynamic memory fields when dynamic.
  The memory fields of the other variant are set to their zero value.
\<close>

definition variant_part :: "ResourceMgrScopeConfig \<Rightarrow> ResourceMgrScopeConfig" where
  "variant_part L =
    (if Dynamic L then L\<lparr>Memory := 0\<rparr>
     else L\<lparr>MemoryFraction := 0, MinMemory := 0, MaxMemory := 0\<rparr>)"

text \<open>
  A configuration is one of the two variants when it leaves the memory fields of the
  other variant at their zero value: a static one consists of \<open>Memory\<close> and the seven
  base fields, a dynamic one of \<open>MemoryFraction\<close>, \<open>MinMemory\<close>, \<open>MaxMemory\<close> and the
  seven base fields.
\<close>

definition limit_variant :: "ResourceMgrScopeConfig \<Rightarrow> bool" where
  "limit_variant L =
    (if Dynamic L then Memory L = 0
     else MemoryFraction L = 0 \<and> MinMemory L = 0 \<and> MaxMemory L = 0)"

subsection \<open>Sample inputs\<close>

text \<open>
  The sample decoder and printer agree with the library on the inputs they are used
  at: the text \<^verbatim>\<open>QmNnooDu7bfjPFoTZYxMNLWUQJyrVwtbZg5gBMjTezGAJN\<close> is the base58 form
  of a sha2-256 multihash (the bytes 0x12 and 0x20 followed by 32 bytes of digest),
  which \<^verbatim>\<open>peer.Decode\<close> accepts and \<^verbatim>\<open>Pretty\<close> prints back, and the text \<^verbatim>\<open>zz\<close> is
  rejected.
\<close>

definition sample_peer :: peer_ID where
  "sample_peer =
     [CHR 0x12, CHR 0x20, CHR 0x06, CHR 0xB3, CHR 0x60, CHR 0x8A, CHR 0xA0, CHR 0x00,
      CHR 0x27, CHR 0x40, CHR 0x49, CHR 0xEB, CHR 0x28, CHR 0xAD, CHR 0x8E, CHR 0x79,
      CHR 0x3A, CHR 0x26, CHR 0xFF, CHR 0x6F, CHR 0xAB, CHR 0x28, CHR 0x1A, CHR 0x7D,
      CHR 0x3B, CHR 0xD7, CHR 0x7C, CHR 0xD1, CHR 0x8E, CHR 0xB7, CHR 0x45, CHR 0xDF,
      CHR 0xAA, CHR 0xBB]"

definition sample_Decode :: decoder where
  "sample_Decode s =
     (if s = ''QmNnooDu7bfjPFoTZYxMNLWUQJyrVwtbZg5gBMjTezGAJN'' then Inr sample_peer
      else Inl ''failed to parse peer ID'')"

definition sample_Pretty :: "peer_ID \<Rightarrow> string" where
  "sample_Pretty p =
     (if p = sample_peer then ''QmNnooDu7bfjPFoTZYxMNLWUQJyrVwtbZg5gBMjTezGAJN'' else [])"

definition sample_base :: BaseLimit where
  "sample_base = \<lparr>bl_Streams = 64, bl_StreamsInbound = 32, bl_StreamsOutbound = 32,
     bl_Conns = 16, bl_ConnsInbound = 8, bl_ConnsOutbound = 8, bl_FD = 4\<rparr>"

definition sample_scope :: scope_state where
  "sample_scope = \<lparr>scope_usage = ScopeStat_zero\<lparr>NumConnsInbound := 2, NumFD := 2\<rparr>,
     scope_limit = StaticLimit 4096 sample_base\<rparr>"

definition sample_state :: rcmgr_state where
  "sample_state = \<lparr>system = sample_scope, transient = sample_scope, svc_scopes = [],
     proto_scopes = [(''/ipfs/bitswap'', sample_scope)], peer_scopes = [],
     default_limit = (\<lambda>k. DynamicLimit
        \<lparr>ml_MemoryFraction = 4602678819172646912, ml_MinMemory = 16, ml_MaxMemory = 128\<rparr>
        sample_base)\<rparr>"

definition sample_static :: ResourceMgrScopeConfig where
  "sample_static = \<lparr>Dynamic = False, Memory = 1024, MemoryFraction = 0, MinMemory = 0,
     MaxMemory = 0, Streams = 7, StreamsInbound = 3, StreamsOutbound = 4, Conns = 5,
     ConnsInbound = 2, ConnsOutbound = 3, FD = 1\<rparr>"

text \<open>The word 4602678819172646912 is the bit pattern of the \<^verbatim>\<open>float64\<close> 0.5.\<close>

definition sample_dynamic :: ResourceMgrScopeConfig where
  "sample_dynamic = \<lparr>Dynamic = True, Memory = 0, MemoryFraction = 4602678819172646912,
     MinMemory = 64, MaxMemory = 2048, Streams = 7, StreamsInbound = 3, StreamsOutbound = 4,
     Conns = 5, ConnsInbound = 2, ConnsOutbound = 3, FD = 1\<rparr>"

text \<open>A manager with scopes in every category, for the aggregate snapshot.\<close>

definition sample_peer_scope :: scope_state where
  "sample_peer_scope = \<lparr>scope_usage = ScopeStat_zero\<lparr>NumStreamsInbound := 1, StatMemory := 512\<rparr>,
     scope_limit = StaticLimit 1024 sample_base\<rparr>"

definition sample_busy_state :: rcmgr_state where
  "sample_busy_state = \<lparr>system = sample_scope, transient = sample_scope,
     svc_scopes = [(''libp2p.autonat'', sample_scope)],
     proto_scopes = [(''/ipfs/bitswap'', sample_scope), (''/ipfs/id/1.0.0'', sample_peer_scope)],
     peer_scopes = [(sample_peer, sample_peer_scope)],
     default_limit = (\<lambda>k. StaticLimit 4096 sample_base)\<rparr>"

text \<open>A manager whose system scope holds a limit of a third implementation.\<close>

definition sample_custom_state :: rcmgr_state where
  "sample_custom_state = \<lparr>system = \<lparr>scope_usage = ScopeStat_zero,
        scope_limit = OtherLimit ''*limits.TieredLimit''\<rparr>,
     transient = sample_scope, svc_scopes = [], proto_scopes = [], peer_scopes = [],
     default_limit = (\<lambda>k. StaticLimit 4096 sample_base)\<rparr>"

section \<open>Properties\<close>

subsection \<open>Dispatch on the address\<close>

lemmas scope_names = ResourceMgrSystemScope_def ResourceMgrTransientScope_def
  ResourceMgrServiceScopePrefix_def ResourceMgrProtocolScopePrefix_def
  ResourceMgrPeerScopePrefix_def

lemmas view_defs = ViewSystem_def ViewTransient_def ViewService_def ViewProtocol_def
  ViewPeer_def

text \<open>On a valid address each entry point is one view of the scope the address names.\<close>

lemma NetLimit_address:
  "scope_address Decode a = Some k \<Longrightarrow>
   NetLimit Decode mgr a =
     (case View mgr k getLimit ResourceMgrScopeConfig_zero of
        (err, mgr', r) \<Rightarrow> (r, err, mgr'))"
  by (auto simp: scope_address_def NetLimit_def scope_names view_defs
      split: if_splits sum.splits)

lemma NetSetLimit_address:
  "scope_address Decode a = Some k \<Longrightarrow>
   NetSetLimit Decode mgr a L =
     (case View mgr k (setLimit L) () of (err, mgr', u) \<Rightarrow> (err, mgr'))"
  by (auto simp: scope_address_def NetSetLimit_def scope_names view_defs
      split: if_splits sum.splits)

lemma NetStat_address:
  "scope_address Decode a = Some k \<Longrightarrow>
   NetStat Decode Pretty mgr a =
     (let s = resolve mgr k; z = NetStatOut_zero in
      (case k of
         SystemKey \<Rightarrow> z\<lparr>System := Some (Stat s)\<rparr>
       | TransientKey \<Rightarrow> z\<lparr>Transient := Some (Stat s)\<rparr>
       | ServiceKey n \<Rightarrow> z\<lparr>Services := Some [(drop 4 a, Stat s)]\<rparr>
       | ProtocolKey n \<Rightarrow> z\<lparr>Protocols := Some [(drop 6 a, Stat s)]\<rparr>
       | PeerKey p \<Rightarrow> z\<lparr>Peers := Some [(drop 5 a, Stat s)]\<rparr>,
       None, store mgr k s))"
  by (auto simp: scope_address_def NetStat_def scope_names view_defs View_def Let_def
      split: if_splits sum.splits)

lemma peer_prefix_only:
  assumes "prefix ''peer:'' scope"
  shows "scope \<noteq> ''all''" "scope \<noteq> ''system''" "scope \<noteq> ''transient''"
    "\<not> prefix ''svc:'' scope" "\<not> prefix ''proto:'' scope"
  using assms by (auto simp: prefix_def)

subsection \<open>Scopes of the library's manager\<close>

lemma get_put_scope: "get_scope (put_scope st k x) k = x"
  by (cases k) (simp_all add: update_conv')

lemma getLimit_setLimit:
  assumes "setLimit L (LimiterScope x) u = (e, s', u')"
  shows "e = None" and "\<exists>x'. s' = LimiterScope x'"
    and "getLimit s' ResourceMgrScopeConfig_zero = (None, s', variant_part L)"
  using assms
  by (cases L; cases "Dynamic L";
      auto simp: setLimit_def getLimit_def SetLimit_def variant_part_def
        ResourceMgrScopeConfig_zero_def)+

lemma variant_part_id:
  "(variant_part L = L) =
     (if Dynamic L then Memory L = 0
      else MemoryFraction L = 0 \<and> MinMemory L = 0 \<and> MaxMemory L = 0)"
  by (cases L) (auto simp: variant_part_def)

lemma set_then_get:
  assumes "scope_address Decode a = Some k"
  shows "fst (NetSetLimit Decode (RcMgr st) a L) = None"
    and "fst (snd (NetLimit Decode (snd (NetSetLimit Decode (RcMgr st) a L)) a)) = None"
    and "fst (NetLimit Decode (snd (NetSetLimit Decode (RcMgr st) a L)) a) = variant_part L"
proof -
  obtain e s' u' where s: "setLimit L (LimiterScope (get_scope st k)) () = (e, s', u')"
    by (metis prod_cases3)
  from getLimit_setLimit[OF s] obtain x' where e: "e = None" and x': "s' = LimiterScope x'"
    and g: "getLimit (LimiterScope x') ResourceMgrScopeConfig_zero =
              (None, LimiterScope x', variant_part L)"
    by auto
  have upd: "NetSetLimit Decode (RcMgr st) a L = (None, RcMgr (put_scope st k x'))"
    by (simp add: NetSetLimit_address[OF assms] View_def s e x')
  show "fst (NetSetLimit Decode (RcMgr st) a L) = None"
    by (simp add: upd)
  have lim: "NetLimit Decode (RcMgr (put_scope st k x')) a =
      (variant_part L, None, RcMgr (put_scope (put_scope st k x') k x'))"
    by (simp add: NetLimit_address[OF assms] View_def get_put_scope g)
  show "fst (snd (NetLimit Decode (snd (NetSetLimit Decode (RcMgr st) a L)) a)) = None"
    by (simp add: upd lim)
  show "fst (NetLimit Decode (snd (NetSetLimit Decode (RcMgr st) a L)) a) = variant_part L"
    by (simp add: upd lim)
qed

subsection \<open>Setting a limit and reading it back\<close>

text \<open>
  Claim C1: on an enabled manager and a valid address (\<^verbatim>\<open>system\<close>, \<^verbatim>\<open>transient\<close>,
  \<^verbatim>\<open>svc:<name>\<close>, \<^verbatim>\<open>proto:<id>\<close> or \<^verbatim>\<open>peer:<valid-id>\<close>), \<open>NetSetLimit\<close> with a
  configuration \<open>L\<close> of the static or of the dynamic variant succeeds, and \<open>NetLimit\<close>
  on the same address then succeeds and returns a configuration equal to \<open>L\<close>. Equal
  means equal in all twelve fields, the \<^verbatim>\<open>float64\<close> field compared by its bits.
\<close>

theorem setLimit_limit_round_trip:
  assumes "scope_address Decode a = Some k" and "limit_variant L"
  shows "fst (NetSetLimit Decode (RcMgr st) a L) = None
    \<and> fst (snd (NetLimit Decode (snd (NetSetLimit Decode (RcMgr st) a L)) a)) = None
    \<and> fst (NetLimit Decode (snd (NetSetLimit Decode (RcMgr st) a L)) a) = L"
proof -
  have "variant_part L = L"
    using assms(2) by (simp add: variant_part_id limit_variant_def)
  then show ?thesis
    using set_then_get[OF assms(1), of st L] by simp
qed

theorem setLimit_limit_round_trip_witness:
  "fst (NetSetLimit sample_Decode (RcMgr sample_state)
          ''peer:QmNnooDu7bfjPFoTZYxMNLWUQJyrVwtbZg5gBMjTezGAJN'' sample_static) = None
   \<and> NetLimit sample_Decode
        (snd (NetSetLimit sample_Decode (RcMgr sample_state)
                ''peer:QmNnooDu7bfjPFoTZYxMNLWUQJyrVwtbZg5gBMjTezGAJN'' sample_static))
        ''peer:QmNnooDu7bfjPFoTZYxMNLWUQJyrVwtbZg5gBMjTezGAJN''
      = (sample_static, None,
         RcMgr (sample_state\<lparr>peer_scopes :=
           [(sample_peer, \<lparr>scope_usage = ScopeStat_zero, scope_limit = StaticLimit 1024
              \<lparr>bl_Streams = 7, bl_StreamsInbound = 3, bl_StreamsOutbound = 4, bl_Conns = 5,
               bl_ConnsInbound = 2, bl_ConnsOutbound = 3, bl_FD = 1\<rparr>\<rparr>)]\<rparr>))
   \<and> fst (NetSetLimit sample_Decode (RcMgr sample_state)
          ''peer:QmNnooDu7bfjPFoTZYxMNLWUQJyrVwtbZg5gBMjTezGAJN'' sample_dynamic) = None
   \<and> fst (NetLimit sample_Decode
        (snd (NetSetLimit sample_Decode (RcMgr sample_state)
                ''peer:QmNnooDu7bfjPFoTZYxMNLWUQJyrVwtbZg5gBMjTezGAJN'' sample_dynamic))
        ''peer:QmNnooDu7bfjPFoTZYxMNLWUQJyrVwtbZg5gBMjTezGAJN'') = sample_dynamic"
proof -
  have h: "scope_address sample_Decode ''peer:QmNnooDu7bfjPFoTZYxMNLWUQJyrVwtbZg5gBMjTezGAJN''
      = Some (PeerKey sample_peer)"
    by (simp add: scope_address_def sample_Decode_def)
  have v1: "limit_variant sample_static"
    by (simp add: limit_variant_def sample_static_def)
  have v2: "limit_variant sample_dynamic"
    by (simp add: limit_variant_def sample_dynamic_def)
  have run: "NetLimit sample_Decode
        (snd (NetSetLimit sample_Decode (RcMgr sample_state)
                ''peer:QmNnooDu7bfjPFoTZYxMNLWUQJyrVwtbZg5gBMjTezGAJN'' sample_static))
        ''peer:QmNnooDu7bfjPFoTZYxMNLWUQJyrVwtbZg5gBMjTezGAJN''
      = (sample_static, None,
         RcMgr (sample_state\<lparr>peer_scopes :=
           [(sample_peer, \<lparr>scope_usage = ScopeStat_zero, scope_limit = StaticLimit 1024
              \<lparr>bl_Streams = 7, bl_StreamsInbound = 3, bl_StreamsOutbound = 4, bl_Conns = 5,
               bl_ConnsInbound = 2, bl_ConnsOutbound = 3, bl_FD = 1\<rparr>\<rparr>)]\<rparr>))"
    by (simp add: NetLimit_address[OF h] NetSetLimit_address[OF h] View_def setLimit_def
        getLimit_def SetLimit_def new_scope_def sample_state_def sample_static_def
        ResourceMgrScopeConfig_zero_def)
  show ?thesis
    using setLimit_limit_round_trip[OF h v1, of sample_state]
      setLimit_limit_round_trip[OF h v2, of sample_state] run
    by simp
qed

subsection \<open>The disabled manager\<close>

text \<open>
  With the null manager, \<open>NetLimit\<close> and \<open>NetSetLimit\<close> fail with
  \<open>NoResourceMgrError\<close> on every valid address: the closures \<open>getLimit\<close> and
  \<open>setLimit\<close> test the scope they are given.
\<close>

lemma disabled_limit_calls_fail:
  assumes "scope_address Decode a = Some k"
  shows "NetLimit Decode NullResourceManager a =
      (ResourceMgrScopeConfig_zero, Some NoResourceMgrError, NullResourceManager)"
    and "NetSetLimit Decode NullResourceManager a L =
      (Some NoResourceMgrError, NullResourceManager)"
  by (simp_all add: NetLimit_address[OF assms] NetSetLimit_address[OF assms] View_def
      getLimit_def setLimit_def)

text \<open>
  Claim C2 says that with the null manager every call of \<open>NetStat\<close>, \<open>NetLimit\<close> and
  \<open>NetSetLimit\<close> on a valid address fails with \<open>NoResourceMgrError\<close>. The single-scope
  branches of \<open>NetStat\<close> make no such test: on the address \<^verbatim>\<open>system\<close> the null
  manager runs the callback on its null scope, and the call returns a zero snapshot
  and no error.
\<close>

theorem NetStat_system_disabled_succeeds:
  "NetStat Decode Pretty NullResourceManager ''system'' =
     (NetStatOut_zero\<lparr>System := Some ScopeStat_zero\<rparr>, None, NullResourceManager)"
  by (simp add: NetStat_def scope_names view_defs View_def)

text \<open>
  Claim C3: with the null manager, \<open>NetStat\<close> on \<^verbatim>\<open>all\<close> returns \<open>NoResourceMgrError\<close>
  together with an empty \<open>NetStatOut\<close>.
\<close>

theorem NetStat_all_disabled:
  "NetStat Decode Pretty NullResourceManager ''all'' =
     (NetStatOut_zero, Some NoResourceMgrError, NullResourceManager)"
  by (simp add: NetStat_def)

subsection \<open>The address \<^verbatim>\<open>all\<close>\<close>

text \<open>
  Claim C9: \<^verbatim>\<open>all\<close> is accepted by \<open>NetStat\<close> only. For every manager, \<open>NetLimit\<close> and
  \<open>NetSetLimit\<close> on \<^verbatim>\<open>all\<close> return the invalid-scope error, leaving result and
  manager as they were, while \<open>NetStat\<close> on \<^verbatim>\<open>all\<close> never returns that error.
\<close>

theorem all_accepted_by_NetStat_only:
  "NetLimit Decode mgr ''all'' =
     (ResourceMgrScopeConfig_zero, Some (InvalidScope ''all''), mgr)
   \<and> NetSetLimit Decode mgr ''all'' L = (Some (InvalidScope ''all''), mgr)
   \<and> fst (snd (NetStat Decode Pretty mgr ''all'')) \<noteq> Some (InvalidScope ''all'')"
  by (cases mgr) (simp_all add: NetLimit_def NetSetLimit_def NetStat_def scope_names Let_def)

subsection \<open>Rejected addresses\<close>

text \<open>
  Claim C7: a scope string that is none of \<^verbatim>\<open>system\<close> and \<^verbatim>\<open>transient\<close> and has none
  of the prefixes \<^verbatim>\<open>svc:\<close>, \<^verbatim>\<open>proto:\<close>, \<^verbatim>\<open>peer:\<close> makes \<open>NetLimit\<close> and \<open>NetSetLimit\<close>
  return the invalid-scope error naming the string, and \<open>NetStat\<close> too unless the
  string is \<^verbatim>\<open>all\<close>; the result is zero and the manager is the one passed in.
\<close>

theorem invalid_scope_rejected:
  assumes "scope \<noteq> ''system''" and "scope \<noteq> ''transient''"
    and "\<not> prefix ''svc:'' scope" and "\<not> prefix ''proto:'' scope"
    and "\<not> prefix ''peer:'' scope"
  shows "NetLimit Decode mgr scope =
      (ResourceMgrScopeConfig_zero, Some (InvalidScope scope), mgr)
    \<and> NetSetLimit Decode mgr scope L = (Some (InvalidScope scope), mgr)
    \<and> (scope \<noteq> ''all'' \<longrightarrow>
         NetStat Decode Pretty mgr scope = (NetStatOut_zero, Some (InvalidScope scope), mgr))"
  using assms by (simp add: NetLimit_def NetSetLimit_def NetStat_def scope_names)

theorem invalid_scope_rejected_witness:
  "NetLimit sample_Decode (RcMgr sample_state) ''services'' =
      (ResourceMgrScopeConfig_zero, Some (InvalidScope ''services''), RcMgr sample_state)
   \<and> NetSetLimit sample_Decode (RcMgr sample_state) ''services'' sample_static =
      (Some (InvalidScope ''services''), RcMgr sample_state)
   \<and> NetStat sample_Decode sample_Pretty (RcMgr sample_state) ''services'' =
      (NetStatOut_zero, Some (InvalidScope ''services''), RcMgr sample_state)"
proof -
  have h: "''services'' \<noteq> ''system''" "''services'' \<noteq> ''transient''"
    "\<not> prefix ''svc:'' ''services''" "\<not> prefix ''proto:'' ''services''"
    "\<not> prefix ''peer:'' ''services''"
    by simp_all
  show ?thesis
    using invalid_scope_rejected[where Decode = sample_Decode and scope = "''services''"
        and Pretty = sample_Pretty and mgr = "RcMgr sample_state" and L = sample_static,
        OF h]
    by simp
qed

text \<open>
  Claim C8: on an address with the prefix \<^verbatim>\<open>peer:\<close> whose suffix does not parse as a
  peer identifier, the three entry points return the invalid-peer-ID error with the
  suffix and the parse error; the result is zero and the manager is the one passed in,
  so no scope was viewed.
\<close>

theorem invalid_peer_id_rejected:
  assumes "prefix ''peer:'' scope" and "Decode (drop 5 scope) = Inl e"
  shows "NetStat Decode Pretty mgr scope =
      (NetStatOut_zero, Some (InvalidPeerID (drop 5 scope) e), mgr)
    \<and> NetLimit Decode mgr scope =
      (ResourceMgrScopeConfig_zero, Some (InvalidPeerID (drop 5 scope) e), mgr)
    \<and> NetSetLimit Decode mgr scope L = (Some (InvalidPeerID (drop 5 scope) e), mgr)"
  using assms peer_prefix_only[OF assms(1)]
  by (simp add: NetLimit_def NetSetLimit_def NetStat_def scope_names)

theorem invalid_peer_id_rejected_witness:
  "NetStat sample_Decode sample_Pretty (RcMgr sample_state) ''peer:zz'' =
      (NetStatOut_zero, Some (InvalidPeerID ''zz'' ''failed to parse peer ID''),
       RcMgr sample_state)
   \<and> NetLimit sample_Decode (RcMgr sample_state) ''peer:zz'' =
      (ResourceMgrScopeConfig_zero, Some (InvalidPeerID ''zz'' ''failed to parse peer ID''),
       RcMgr sample_state)
   \<and> NetSetLimit sample_Decode (RcMgr sample_state) ''peer:zz'' sample_static =
      (Some (InvalidPeerID ''zz'' ''failed to parse peer ID''), RcMgr sample_state)"
proof -
  have h1: "prefix ''peer:'' ''peer:zz''"
    by simp
  have h2: "sample_Decode (drop 5 ''peer:zz'') = Inl ''failed to parse peer ID''"
    by (simp add: sample_Decode_def)
  show ?thesis
    using invalid_peer_id_rejected[where Decode = sample_Decode and scope = "''peer:zz''"
        and Pretty = sample_Pretty and mgr = "RcMgr sample_state" and L = sample_static,
        OF h1 h2]
    by simp
qed

subsection \<open>The aggregate snapshot\<close>

lemma fold_update_nonempty:
  "acc \<noteq> [] \<or> entries \<noteq> [] \<Longrightarrow>
   fold (\<lambda>(k, v) m. AList.update (f k) v m) entries acc \<noteq> []"
  by (induction entries arbitrary: acc) auto

lemma copy_nonempty:
  shows "entries \<noteq> [] \<Longrightarrow> copy_protocols entries \<noteq> []"
    and "pentries \<noteq> [] \<Longrightarrow> copy_peers Pretty pentries \<noteq> []"
  using fold_update_nonempty[of "[]" entries "\<lambda>k. k"]
    fold_update_nonempty[of "[]" pentries Pretty]
  by (simp_all add: copy_protocols_def copy_peers_def)

text \<open>
  What the two \<^verbatim>\<open>range\<close> loops build. As a map, the copy holds every entry of the
  source under its converted key (were a key to occur twice, the later entry would
  win). When the converted keys are distinct, as the keys of a Go map are, the copy
  is the source entry by entry.
\<close>

lemma map_of_fold_update:
  "map_of (fold (\<lambda>(k, v) m. AList.update (f k) v m) entries acc) =
     map_of (rev (map (\<lambda>(k, v). (f k, v)) entries) @ acc)"
proof (induction entries arbitrary: acc)
  case Nil
  then show ?case by simp
next
  case (Cons e entries)
  obtain k v where e: "e = (k, v)"
    by (cases e)
  show ?case
    by (rule ext) (simp add: e Cons.IH update_conv' map_add_def split: option.splits)
qed

lemma update_fresh: "k \<notin> fst ` set al \<Longrightarrow> AList.update k v al = al @ [(k, v)]"
  by (induction al) auto

lemma fold_update_distinct:
  "distinct (map (\<lambda>(k, v). f k) entries) \<Longrightarrow>
   (\<forall>e \<in> set entries. f (fst e) \<notin> fst ` set acc) \<Longrightarrow>
   fold (\<lambda>(k, v) m. AList.update (f k) v m) entries acc =
     acc @ map (\<lambda>(k, v). (f k, v)) entries"
proof (induction entries arbitrary: acc)
  case Nil
  then show ?case by simp
next
  case (Cons e entries)
  obtain k v where e: "e = (k, v)"
    by (cases e)
  from Cons.prems have fresh: "f k \<notin> fst ` set acc"
    and d: "distinct (map (\<lambda>(k, v). f k) entries)"
    and rest: "\<forall>e' \<in> set entries. f (fst e') \<notin> fst ` set (acc @ [(f k, v)])"
    by (auto simp: e image_iff)
  show ?case
    using Cons.IH[OF d rest] by (simp add: e update_fresh[OF fresh])
qed

lemma copy_protocols_map:
  "map_of (copy_protocols entries) = map_of (rev entries)"
  using map_of_fold_update[of "\<lambda>k. k" entries "[]"]
  by (simp add: copy_protocols_def)

lemma copy_peers_map:
  "map_of (copy_peers Pretty entries) =
     map_of (rev (map (\<lambda>(p, stat). (Pretty p, stat)) entries))"
  using map_of_fold_update[of Pretty entries "[]"]
  by (simp add: copy_peers_def)

lemma copy_protocols_distinct:
  "distinct (map fst entries) \<Longrightarrow> copy_protocols entries = entries"
proof -
  assume "distinct (map fst entries)"
  then have "distinct (map (\<lambda>(k, v). k) entries)"
    by (simp add: case_prod_unfold)
  from fold_update_distinct[of "\<lambda>k. k" entries "[]", OF this]
  show ?thesis
    by (simp add: copy_protocols_def)
qed

lemma copy_peers_distinct:
  "distinct (map (\<lambda>(p, stat). Pretty p) entries) \<Longrightarrow>
   copy_peers Pretty entries = map (\<lambda>(p, stat). (Pretty p, stat)) entries"
  using fold_update_distinct[of Pretty entries "[]"]
  by (simp add: copy_peers_def)

text \<open>
  Claim C5: on an enabled manager, \<open>NetStat\<close> on \<^verbatim>\<open>all\<close> succeeds; its result always
  carries the System and Transient snapshots of the aggregate, and it carries the
  Services, Protocols and Peers maps exactly when the aggregate has an entry in that
  category. A category without entries is left \<^verbatim>\<open>nil\<close>, never an empty map. A map that
  is carried holds the entries of the aggregate: Services is the aggregate's map,
  Protocols has the same entries under the same keys, and Peers has the same
  snapshots under the printed form of the peer identifiers.
\<close>

theorem NetStat_all_enabled:
  assumes "ResourceManagerState (RcMgr st) = Some agg"
    and "NetStat Decode Pretty (RcMgr st) ''all'' = (out, err, mgr')"
  shows "err = None \<and> mgr' = RcMgr st
    \<and> System out = Some (rs_System agg) \<and> Transient out = Some (rs_Transient agg)
    \<and> (Services out \<noteq> None) = (rs_Services agg \<noteq> [])
    \<and> (Protocols out \<noteq> None) = (rs_Protocols agg \<noteq> [])
    \<and> (Peers out \<noteq> None) = (rs_Peers agg \<noteq> [])
    \<and> Services out \<noteq> Some [] \<and> Protocols out \<noteq> Some [] \<and> Peers out \<noteq> Some []
    \<and> (rs_Services agg \<noteq> [] \<longrightarrow> Services out = Some (rs_Services agg))
    \<and> (\<forall>m. Protocols out = Some m \<longrightarrow> map_of m = map_of (rev (rs_Protocols agg)))
    \<and> (\<forall>m. Peers out = Some m \<longrightarrow>
          map_of m = map_of (rev (map (\<lambda>(p, stat). (Pretty p, stat)) (rs_Peers agg))))
    \<and> (rs_Protocols agg \<noteq> [] \<and> distinct (map fst (rs_Protocols agg)) \<longrightarrow>
          Protocols out = Some (rs_Protocols agg))
    \<and> (rs_Peers agg \<noteq> [] \<and> distinct (map (\<lambda>(p, stat). Pretty p) (rs_Peers agg)) \<longrightarrow>
          Peers out = Some (map (\<lambda>(p, stat). (Pretty p, stat)) (rs_Peers agg)))"
proof -
  have out: "out =
     (let r = NetStatOut_zero\<lparr>System := Some (rs_System agg),
                Transient := Some (rs_Transient agg)\<rparr>;
          r = (if rs_Services agg \<noteq> [] then r\<lparr>Services := Some (rs_Services agg)\<rparr> else r);
          r = (if rs_Protocols agg \<noteq> []
               then r\<lparr>Protocols := Some (copy_protocols (rs_Protocols agg))\<rparr> else r)
      in if rs_Peers agg \<noteq> [] then r\<lparr>Peers := Some (copy_peers Pretty (rs_Peers agg))\<rparr>
         else r)"
    and err: "err = None" and mgr: "mgr' = RcMgr st"
    using assms(2) unfolding NetStat_def assms(1) by (simp_all add: Let_def)
  have sys: "System out = Some (rs_System agg)" "Transient out = Some (rs_Transient agg)"
    by (simp_all add: out Let_def NetStatOut_zero_def)
  have svc: "Services out = (if rs_Services agg = [] then None else Some (rs_Services agg))"
    by (simp add: out Let_def NetStatOut_zero_def)
  have pro: "Protocols out =
      (if rs_Protocols agg = [] then None else Some (copy_protocols (rs_Protocols agg)))"
    by (simp add: out Let_def NetStatOut_zero_def)
  have per: "Peers out =
      (if rs_Peers agg = [] then None else Some (copy_peers Pretty (rs_Peers agg)))"
    by (simp add: out Let_def NetStatOut_zero_def)
  have presence: "(Services out \<noteq> None) = (rs_Services agg \<noteq> [])"
    "(Protocols out \<noteq> None) = (rs_Protocols agg \<noteq> [])"
    "(Peers out \<noteq> None) = (rs_Peers agg \<noteq> [])"
    by (simp_all add: svc pro per)
  have nonempty: "Services out \<noteq> Some []" "Protocols out \<noteq> Some []" "Peers out \<noteq> Some []"
    using copy_nonempty(1)[of "rs_Protocols agg"] copy_nonempty(2)[of "rs_Peers agg" Pretty]
    by (simp_all add: svc pro per)
  have c1: "rs_Services agg \<noteq> [] \<longrightarrow> Services out = Some (rs_Services agg)"
    by (simp add: svc)
  have c2: "\<forall>m. Protocols out = Some m \<longrightarrow> map_of m = map_of (rev (rs_Protocols agg))"
    by (simp add: pro copy_protocols_map)
  have c3: "\<forall>m. Peers out = Some m \<longrightarrow>
      map_of m = map_of (rev (map (\<lambda>(p, stat). (Pretty p, stat)) (rs_Peers agg)))"
    by (simp add: per copy_peers_map)
  have c4: "rs_Protocols agg \<noteq> [] \<and> distinct (map fst (rs_Protocols agg)) \<longrightarrow>
      Protocols out = Some (rs_Protocols agg)"
    by (simp add: pro copy_protocols_distinct)
  have c5: "rs_Peers agg \<noteq> [] \<and> distinct (map (\<lambda>(p, stat). Pretty p) (rs_Peers agg)) \<longrightarrow>
      Peers out = Some (map (\<lambda>(p, stat). (Pretty p, stat)) (rs_Peers agg))"
    by (simp add: per copy_peers_distinct)
  from err mgr sys presence nonempty c1 c2 c3 c4 c5 show ?thesis
    by blast
qed

theorem NetStat_all_enabled_witness:
  "NetStat sample_Decode sample_Pretty (RcMgr sample_busy_state) ''all'' =
     (\<lparr>System = Some (scope_usage sample_scope),
       Transient = Some (scope_usage sample_scope),
       Services = Some [(''libp2p.autonat'', scope_usage sample_scope)],
       Protocols = Some [(''/ipfs/bitswap'', scope_usage sample_scope),
                         (''/ipfs/id/1.0.0'', scope_usage sample_peer_scope)],
       Peers = Some [(''QmNnooDu7bfjPFoTZYxMNLWUQJyrVwtbZg5gBMjTezGAJN'',
                      scope_usage sample_peer_scope)]\<rparr>,
      None, RcMgr sample_busy_state)
   \<and> Services (fst (NetStat sample_Decode sample_Pretty (RcMgr sample_state) ''all'')) = None
   \<and> Protocols (fst (NetStat sample_Decode sample_Pretty (RcMgr sample_state) ''all''))
       = Some [(''/ipfs/bitswap'', scope_usage sample_scope)]
   \<and> Peers (fst (NetStat sample_Decode sample_Pretty (RcMgr sample_state) ''all'')) = None"
proof -
  define agg where "agg = \<lparr>rs_System = scope_usage sample_scope,
    rs_Transient = scope_usage sample_scope,
    rs_Services = [(''libp2p.autonat'', scope_usage sample_scope)],
    rs_Protocols = [(''/ipfs/bitswap'', scope_usage sample_scope),
                    (''/ipfs/id/1.0.0'', scope_usage sample_peer_scope)],
    rs_Peers = [(sample_peer, scope_usage sample_peer_scope)]\<rparr>"
  have h1: "ResourceManagerState (RcMgr sample_busy_state) = Some agg"
    by (simp add: agg_def sample_busy_state_def stats_of_def)
  obtain out err mgr' where
    h2: "NetStat sample_Decode sample_Pretty (RcMgr sample_busy_state) ''all'' = (out, err, mgr')"
    by (metis prod_cases3)
  have busy: "out = \<lparr>System = Some (scope_usage sample_scope),
       Transient = Some (scope_usage sample_scope),
       Services = Some [(''libp2p.autonat'', scope_usage sample_scope)],
       Protocols = Some [(''/ipfs/bitswap'', scope_usage sample_scope),
                         (''/ipfs/id/1.0.0'', scope_usage sample_peer_scope)],
       Peers = Some [(''QmNnooDu7bfjPFoTZYxMNLWUQJyrVwtbZg5gBMjTezGAJN'',
                      scope_usage sample_peer_scope)]\<rparr>
      \<and> err = None \<and> mgr' = RcMgr sample_busy_state"
    using NetStat_all_enabled[OF h1 h2]
    by (cases out) (simp add: agg_def sample_Pretty_def)
  define agg0 where "agg0 = \<lparr>rs_System = scope_usage sample_scope,
    rs_Transient = scope_usage sample_scope, rs_Services = [],
    rs_Protocols = [(''/ipfs/bitswap'', scope_usage sample_scope)], rs_Peers = []\<rparr>"
  have g1: "ResourceManagerState (RcMgr sample_state) = Some agg0"
    by (simp add: agg0_def sample_state_def stats_of_def)
  obtain out0 err0 mgr0 where
    g2: "NetStat sample_Decode sample_Pretty (RcMgr sample_state) ''all'' = (out0, err0, mgr0)"
    by (metis prod_cases3)
  have quiet: "Services out0 = None \<and> Peers out0 = None
      \<and> Protocols out0 = Some [(''/ipfs/bitswap'', scope_usage sample_scope)]"
    using NetStat_all_enabled[OF g1 g2] by (simp add: agg0_def)
  show ?thesis
    using busy quiet by (simp add: h2 g2)
qed

subsection \<open>Single scopes\<close>

text \<open>
  Claim C10: a successful \<open>NetStat\<close> on a single-scope address sets exactly the field
  of the address's category, to the snapshot of the scope the address names (for the
  three prefixed forms a one-entry map keyed by the suffix of the address), and leaves
  the other four fields \<^verbatim>\<open>nil\<close>.
\<close>

theorem NetStat_single_scope_frame:
  assumes "scope_address Decode a = Some k"
    and "NetStat Decode Pretty mgr a = (out, None, mgr')"
  shows "case k of
      SystemKey \<Rightarrow>
        System out = Some (Stat (resolve mgr k)) \<and> Transient out = None
        \<and> Services out = None \<and> Protocols out = None \<and> Peers out = None
    | TransientKey \<Rightarrow>
        System out = None \<and> Transient out = Some (Stat (resolve mgr k))
        \<and> Services out = None \<and> Protocols out = None \<and> Peers out = None
    | ServiceKey n \<Rightarrow>
        System out = None \<and> Transient out = None
        \<and> Services out = Some [(drop 4 a, Stat (resolve mgr k))]
        \<and> Protocols out = None \<and> Peers out = None
    | ProtocolKey n \<Rightarrow>
        System out = None \<and> Transient out = None \<and> Services out = None
        \<and> Protocols out = Some [(drop 6 a, Stat (resolve mgr k))] \<and> Peers out = None
    | PeerKey p \<Rightarrow>
        System out = None \<and> Transient out = None \<and> Services out = None
        \<and> Protocols out = None \<and> Peers out = Some [(drop 5 a, Stat (resolve mgr k))]"
  using assms(2) unfolding NetStat_address[OF assms(1)]
  by (cases k) (auto simp: Let_def NetStatOut_zero_def)

theorem NetStat_single_scope_frame_witness:
  "NetStat sample_Decode sample_Pretty (RcMgr sample_state) ''proto:/ipfs/bitswap'' =
     (\<lparr>System = None, Transient = None, Services = None,
       Protocols = Some [(''/ipfs/bitswap'', scope_usage sample_scope)], Peers = None\<rparr>,
      None,
      RcMgr (put_scope sample_state (ProtocolKey ''/ipfs/bitswap'') sample_scope))
   \<and> (let out = fst (NetStat sample_Decode sample_Pretty (RcMgr sample_state)
                       ''proto:/ipfs/bitswap'')
      in System out = None \<and> Transient out = None \<and> Services out = None
         \<and> Protocols out = Some [(''/ipfs/bitswap'', scope_usage sample_scope)]
         \<and> Peers out = None)"
proof -
  have h1: "scope_address sample_Decode ''proto:/ipfs/bitswap''
      = Some (ProtocolKey ''/ipfs/bitswap'')"
    by (simp add: scope_address_def)
  have h2: "NetStat sample_Decode sample_Pretty (RcMgr sample_state) ''proto:/ipfs/bitswap'' =
     (\<lparr>System = None, Transient = None, Services = None,
       Protocols = Some [(''/ipfs/bitswap'', scope_usage sample_scope)], Peers = None\<rparr>,
      None,
      RcMgr (put_scope sample_state (ProtocolKey ''/ipfs/bitswap'') sample_scope))"
    by (simp add: NetStat_def scope_names view_defs View_def NetStatOut_zero_def
        sample_state_def Let_def)
  show ?thesis
    using NetStat_single_scope_frame[OF h1 h2] by (simp add: h2)
qed

subsection \<open>The limit variants\<close>

text \<open>A limit of any other type reaches the default branch, which returns an error.\<close>

lemma NetLimit_other_variant:
  assumes "scope_address Decode a = Some k"
    and "scope_limit (get_scope st k) = OtherLimit t"
  shows "fst (snd (NetLimit Decode (RcMgr st) a)) = Some (UnknownLimitType t)"
  using assms(2) unfolding NetLimit_address[OF assms(1)]
  by (simp add: View_def getLimit_def)

text \<open>
  Claim C6, as stated: the set of limit variants is closed, and an unknown variant is
  a programming error, not a runtime condition. In the code \<^verbatim>\<open>rcmgr.Limit\<close> is an
  interface and the type switch of \<open>getLimit\<close> has a default branch that returns an
  ordinary error. On a manager whose system scope holds a limit of a third
  implementation, \<open>NetLimit\<close> returns that error at run time, with a zero result.
\<close>

theorem NetLimit_unknown_variant_counterexample:
  "NetLimit sample_Decode (RcMgr sample_custom_state) ''system'' =
     (ResourceMgrScopeConfig_zero, Some (UnknownLimitType ''*limits.TieredLimit''),
      RcMgr sample_custom_state)"
  by (simp add: NetLimit_def scope_names ViewSystem_def View_def getLimit_def
      sample_custom_state_def)

text \<open>
  Claim C6, amended: on an enabled manager and a valid address whose scope holds a
  limit of one of the two recognised variants, \<open>NetLimit\<close> succeeds, so the
  unknown-limit-type error is not returned, and its result has \<open>Dynamic\<close> false with the
  fields of the \<open>StaticLimit\<close>, or \<open>Dynamic\<close> true with the fields of the \<open>DynamicLimit\<close>.
  The set of variants is open: when the scope holds a limit of any other
  implementation, \<open>NetLimit\<close> returns the unknown-limit-type error naming its type, as
  an ordinary error with a zero result.
\<close>

theorem NetLimit_limit_variants:
  assumes "scope_address Decode a = Some k"
    and "NetLimit Decode (RcMgr st) a = (r, err, mgr')"
  shows "(\<forall>m bl. scope_limit (get_scope st k) = StaticLimit m bl \<longrightarrow>
       err = None \<and> (\<forall>t. err \<noteq> Some (UnknownLimitType t))
       \<and> r = \<lparr>Dynamic = False, Memory = m, MemoryFraction = 0, MinMemory = 0,
              MaxMemory = 0, Streams = bl_Streams bl,
              StreamsInbound = bl_StreamsInbound bl,
              StreamsOutbound = bl_StreamsOutbound bl, Conns = bl_Conns bl,
              ConnsInbound = bl_ConnsInbound bl, ConnsOutbound = bl_ConnsOutbound bl,
              FD = bl_FD bl\<rparr>)
    \<and> (\<forall>ml bl. scope_limit (get_scope st k) = DynamicLimit ml bl \<longrightarrow>
       err = None \<and> (\<forall>t. err \<noteq> Some (UnknownLimitType t))
       \<and> r = \<lparr>Dynamic = True, Memory = 0, MemoryFraction = ml_MemoryFraction ml,
              MinMemory = ml_MinMemory ml, MaxMemory = ml_MaxMemory ml,
              Streams = bl_Streams bl, StreamsInbound = bl_StreamsInbound bl,
              StreamsOutbound = bl_StreamsOutbound bl, Conns = bl_Conns bl,
              ConnsInbound = bl_ConnsInbound bl, ConnsOutbound = bl_ConnsOutbound bl,
              FD = bl_FD bl\<rparr>)
    \<and> (\<forall>t. scope_limit (get_scope st k) = OtherLimit t \<longrightarrow>
       err = Some (UnknownLimitType t) \<and> r = ResourceMgrScopeConfig_zero)"
  using assms(2) unfolding NetLimit_address[OF assms(1)]
  by (auto simp: View_def getLimit_def ResourceMgrScopeConfig_zero_def)

theorem NetLimit_limit_variants_witness:
  "fst (snd (NetLimit sample_Decode (RcMgr sample_state) ''system'')) = None
   \<and> fst (NetLimit sample_Decode (RcMgr sample_state) ''system'') =
       \<lparr>Dynamic = False, Memory = 4096, MemoryFraction = 0, MinMemory = 0, MaxMemory = 0,
        Streams = 64, StreamsInbound = 32, StreamsOutbound = 32, Conns = 16,
        ConnsInbound = 8, ConnsOutbound = 8, FD = 4\<rparr>
   \<and> fst (snd (NetLimit sample_Decode (RcMgr sample_state) ''svc:libp2p.autonat'')) = None
   \<and> fst (NetLimit sample_Decode (RcMgr sample_state) ''svc:libp2p.autonat'') =
       \<lparr>Dynamic = True, Memory = 0, MemoryFraction = 4602678819172646912, MinMemory = 16,
        MaxMemory = 128, Streams = 64, StreamsInbound = 32, StreamsOutbound = 32,
        Conns = 16, ConnsInbound = 8, ConnsOutbound = 8, FD = 4\<rparr>
   \<and> fst (snd (NetLimit sample_Decode (RcMgr sample_custom_state) ''system'')) =
       Some (UnknownLimitType ''*limits.TieredLimit'')"
proof -
  have a1: "scope_address sample_Decode ''system'' = Some SystemKey"
    by (simp add: scope_address_def)
  have l1: "scope_limit (get_scope sample_state SystemKey) = StaticLimit 4096 sample_base"
    by (simp add: sample_state_def sample_scope_def)
  obtain r1 e1 m1 where
    n1: "NetLimit sample_Decode (RcMgr sample_state) ''system'' = (r1, e1, m1)"
    by (metis prod_cases3)
  have a2: "scope_address sample_Decode ''svc:libp2p.autonat''
      = Some (ServiceKey ''libp2p.autonat'')"
    by (simp add: scope_address_def)
  have l2: "scope_limit (get_scope sample_state (ServiceKey ''libp2p.autonat'')) =
      DynamicLimit \<lparr>ml_MemoryFraction = 4602678819172646912, ml_MinMemory = 16,
        ml_MaxMemory = 128\<rparr> sample_base"
    by (simp add: sample_state_def new_scope_def)
  obtain r2 e2 m2 where
    n2: "NetLimit sample_Decode (RcMgr sample_state) ''svc:libp2p.autonat'' = (r2, e2, m2)"
    by (metis prod_cases3)
  have l3: "scope_limit (get_scope sample_custom_state SystemKey) =
      OtherLimit ''*limits.TieredLimit''"
    by (simp add: sample_custom_state_def)
  obtain r3 e3 m3 where
    n3: "NetLimit sample_Decode (RcMgr sample_custom_state) ''system'' = (r3, e3, m3)"
    by (metis prod_cases3)
  show ?thesis
    using NetLimit_limit_variants[OF a1 n1] NetLimit_limit_variants[OF a2 n2]
      NetLimit_limit_variants[OF a1 n3] l1 l2 l3
    by (simp add: n1 n2 n3 sample_base_def)
qed

subsection \<open>The constructor's switch\<close>

text \<open>
  Claim C4: the decision of the constructor is a three-state function of the variable
  \<^verbatim>\<open>LIBP2P_RCMGR\<close> and the configuration. The values \<^verbatim>\<open>0\<close> and \<^verbatim>\<open>false\<close> disable the
  manager and the values \<^verbatim>\<open>1\<close> and \<^verbatim>\<open>true\<close> enable it, whatever the configuration says;
  with any other value, and with the variable unset, the decision is \<open>Enabled\<close> of the
  configuration, which counts as false when it is unset.
\<close>

theorem rcmgr_enabled_three_state:
  "(Getenv env ''LIBP2P_RCMGR'' \<in> {''0'', ''false''} \<longrightarrow> \<not> rcmgr_enabled cfg env)
   \<and> (Getenv env ''LIBP2P_RCMGR'' \<in> {''1'', ''true''} \<longrightarrow> rcmgr_enabled cfg env)
   \<and> (Getenv env ''LIBP2P_RCMGR'' \<notin> {''0'', ''false'', ''1'', ''true''} \<longrightarrow>
        rcmgr_enabled cfg env = (Enabled cfg = FlagTrue))
   \<and> (env ''LIBP2P_RCMGR'' = None \<longrightarrow> rcmgr_enabled cfg env = (Enabled cfg = FlagTrue))"
  by (cases "Enabled cfg") (auto simp: rcmgr_enabled_def Getenv_def Let_def)

theorem rcmgr_enabled_three_state_witness:
  "\<not> rcmgr_enabled \<lparr>Enabled = FlagTrue, Limits = []\<rparr> [''LIBP2P_RCMGR'' \<mapsto> ''false'']
   \<and> rcmgr_enabled \<lparr>Enabled = FlagFalse, Limits = []\<rparr> [''LIBP2P_RCMGR'' \<mapsto> ''1'']
   \<and> rcmgr_enabled \<lparr>Enabled = FlagTrue, Limits = []\<rparr> [''LIBP2P_RCMGR'' \<mapsto> ''yes'']
   \<and> \<not> rcmgr_enabled \<lparr>Enabled = FlagDefault, Limits = []\<rparr> Map.empty"
  using rcmgr_enabled_three_state[of "[''LIBP2P_RCMGR'' \<mapsto> ''false'']"
      "\<lparr>Enabled = FlagTrue, Limits = []\<rparr>"]
    rcmgr_enabled_three_state[of "[''LIBP2P_RCMGR'' \<mapsto> ''1'']"
      "\<lparr>Enabled = FlagFalse, Limits = []\<rparr>"]
    rcmgr_enabled_three_state[of "[''LIBP2P_RCMGR'' \<mapsto> ''yes'']"
      "\<lparr>Enabled = FlagTrue, Limits = []\<rparr>"]
    rcmgr_enabled_three_state[of Map.empty "\<lparr>Enabled = FlagDefault, Limits = []\<rparr>"]
  by (simp add: Getenv_def)

text \<open>A disabled constructor returns the null manager; an enabled one never does.\<close>

lemma View_keeps_manager_kind:
  assumes "View (RcMgr st) k f r = (err, mgr', r')"
  shows "mgr' \<noteq> NullResourceManager"
proof -
  obtain e s' x where f: "f (LimiterScope (get_scope st k)) r = (e, s', x)"
    by (metis prod_cases3)
  from assms have "mgr' = store (RcMgr st) k s'"
    by (simp add: View_def f)
  then show ?thesis
    by (cases s') simp_all
qed

lemma NetSetLimit_keeps_manager_kind:
  assumes "NetSetLimit Decode (RcMgr st) scope L = (err, mgr')"
  shows "mgr' \<noteq> NullResourceManager"
proof (cases "scope_address Decode scope")
  case None
  then have "mgr' = RcMgr st"
    using assms
    by (auto simp: scope_address_def NetSetLimit_def scope_names
        split: if_splits sum.splits)
  then show ?thesis by simp
next
  case (Some k)
  obtain e m u where v: "View (RcMgr st) k (setLimit L) () = (e, m, u)"
    by (metis prod_cases3)
  from assms have "mgr' = m"
    by (simp add: NetSetLimit_address[OF Some] v)
  then show ?thesis
    using View_keeps_manager_kind[OF v] by simp
qed

lemma apply_limits_keeps_manager_kind:
  "apply_limits Decode (RcMgr st) ls = Inr mgr' \<Longrightarrow> mgr' \<noteq> NullResourceManager"
proof (induction ls arbitrary: st)
  case Nil
  then show ?case by auto
next
  case (Cons x ls)
  obtain scope userLimit where x: "x = (scope, userLimit)"
    by (cases x)
  obtain err m where n: "NetSetLimit Decode (RcMgr st) scope userLimit = (err, m)"
    by (cases "NetSetLimit Decode (RcMgr st) scope userLimit")
  from NetSetLimit_keeps_manager_kind[OF n] obtain st' where m: "m = RcMgr st'"
    by (cases m) simp_all
  from Cons.prems have "apply_limits Decode (RcMgr st') ls = Inr mgr'"
    by (cases err) (simp_all add: x n m)
  then show ?case
    by (rule Cons.IH)
qed

lemma ResourceManager_null_iff_disabled:
  "(ResourceManager Decode cfg env create = Inr NullResourceManager)
     = (\<not> rcmgr_enabled cfg env)"
  using apply_limits_keeps_manager_kind[of Decode _ "Limits cfg" NullResourceManager]
  by (auto simp: ResourceManager_def split: sum.splits)

end
